theory Spec2Isabelle
  imports Main
begin

section \<open>JavaScript values and objects\<close>

text \<open>
  The store (\<^verbatim>\<open>server/storage.ts\<close>) handles its entities as plain JavaScript objects:
  it copies them with the spread operator, reads single properties and applies
  \<^verbatim>\<open>||\<close> to them. The model therefore keeps the run-time view. A value is one of the
  kinds a column of \<^verbatim>\<open>shared/schema.ts\<close> can hold; a \<^verbatim>\<open>Date\<close> is its time value in
  milliseconds since the epoch (invalid dates are not modelled); a \<^verbatim>\<open>jsonb\<close> payload
  (\<^verbatim>\<open>metrics\<close>, \<^verbatim>\<open>results\<close>, \<^verbatim>\<open>achievements\<close>) is carried as a list of properties, which the
  store never inspects; numbers occur inside such payloads only.
\<close>

datatype jsval =
    JUndefined
  | JNull
  | JBool bool
  | JStr string
  | JNum int
  | JDate int
  | JObj "(string \<times> jsval) list"

text \<open>An entity object: its own properties. A property that is absent is \<open>None\<close>;
  a property that is present with the value \<^verbatim>\<open>undefined\<close> is \<open>Some JUndefined\<close>.\<close>

type_synonym obj = "string \<rightharpoonup> jsval"

text \<open>Reading a property, \<^verbatim>\<open>o.f\<close>: an absent property reads as \<^verbatim>\<open>undefined\<close>.\<close>

definition getProp :: "obj \<Rightarrow> string \<Rightarrow> jsval" where
  "getProp ob f = (case ob f of None \<Rightarrow> JUndefined | Some v \<Rightarrow> v)"

text \<open>ToBoolean: \<^verbatim>\<open>undefined\<close>, \<^verbatim>\<open>null\<close>, \<^verbatim>\<open>false\<close>, \<^verbatim>\<open>""\<close> and \<^verbatim>\<open>0\<close> are falsy; dates and
  objects are truthy.\<close>

fun truthy :: "jsval \<Rightarrow> bool" where
  "truthy JUndefined = False"
| "truthy JNull = False"
| "truthy (JBool b) = b"
| "truthy (JStr s) = (s \<noteq> [])"
| "truthy (JNum n) = (n \<noteq> 0)"
| "truthy (JDate t) = True"
| "truthy (JObj ps) = True"

text \<open>The operator \<^verbatim>\<open>a || b\<close>.\<close>

definition js_or :: "jsval \<Rightarrow> jsval \<Rightarrow> jsval" where
  "js_or a b = (if truthy a then a else b)"

text \<open>\<^verbatim>\<open>d.getTime()\<close>: the time value of a \<^verbatim>\<open>Date\<close>; on any other value the call throws a
  \<^verbatim>\<open>TypeError\<close>.\<close>

datatype error = TypeError

fun getTime :: "jsval \<Rightarrow> error + int" where
  "getTime (JDate t) = Inr t"
| "getTime v = Inl TypeError"

text \<open>\<^verbatim>\<open>v > now\<close> for a \<^verbatim>\<open>Date\<close> \<open>now\<close>: two dates are compared by their time values. The
  columns compared this way are typed \<^verbatim>\<open>Date\<close>; the coercions JavaScript applies to
  other kinds of value are not modelled (the function answers \<open>False\<close> there, and the
  theorems about it assume dates).\<close>

fun date_gt :: "jsval \<Rightarrow> int \<Rightarrow> bool" where
  "date_gt (JDate t) now = (now < t)"
| "date_gt v now = False"

section \<open>The JavaScript \<^verbatim>\<open>Map\<close>\<close>

text \<open>A \<^verbatim>\<open>Map<string, T>\<close> iterates in insertion order: \<^verbatim>\<open>set\<close> on an existing key replaces
  the value in place, on a new key it appends; \<^verbatim>\<open>delete\<close> answers whether the key was
  there.\<close>

type_synonym 'v JSMap = "(string \<times> 'v) list"

fun Map_get :: "'v JSMap \<Rightarrow> string \<Rightarrow> 'v option" where
  "Map_get [] k = None"
| "Map_get ((k', v) # m) k = (if k' = k then Some v else Map_get m k)"

fun Map_set :: "'v JSMap \<Rightarrow> string \<Rightarrow> 'v \<Rightarrow> 'v JSMap" where
  "Map_set [] k v = [(k, v)]"
| "Map_set ((k', v') # m) k v = (if k' = k then (k, v) # m else (k', v') # Map_set m k v)"

definition Map_has :: "'v JSMap \<Rightarrow> string \<Rightarrow> bool" where
  "Map_has m k = (Map_get m k \<noteq> None)"

definition Map_delete :: "'v JSMap \<Rightarrow> string \<Rightarrow> 'v JSMap \<times> bool" where
  "Map_delete m k = (filter (\<lambda>e. fst e \<noteq> k) m, Map_has m k)"

definition Map_values :: "'v JSMap \<Rightarrow> 'v list" where
  "Map_values m = map snd m"

definition Map_keys :: "'v JSMap \<Rightarrow> string set" where
  "Map_keys m = fst ` set m"

section \<open>The in-memory store\<close>

record MemStorage =
  users :: "obj JSMap"
  athletes :: "obj JSMap"
  exercises :: "obj JSMap"
  trainingSessions :: "obj JSMap"
  events :: "obj JSMap"
  galleryItems :: "obj JSMap"
  bestOfWeeks :: "obj JSMap"
  liveStreams :: "obj JSMap"

text \<open>The eight maps as the field initialisers leave them.\<close>

definition emptyStorage :: MemStorage where
  "emptyStorage = \<lparr> users = [], athletes = [], exercises = [], trainingSessions = [],
     events = [], galleryItems = [], bestOfWeeks = [], liveStreams = [] \<rparr>"

text \<open>
  \<^verbatim>\<open>randomUUID()\<close> and \<^verbatim>\<open>new Date()\<close> read the environment: every operation that calls
  them takes the answers as arguments (\<open>uuid\<close>, \<open>now\<close>). Every operation returns the
  store it leaves together with its result; the \<^verbatim>\<open>async\<close> wrapper has no effect here.

  \<^verbatim>\<open>initializeDefaultData\<close> draws three identifiers and three dates.
\<close>

definition initializeDefaultData ::
  "MemStorage \<Rightarrow> string \<Rightarrow> string \<Rightarrow> string \<Rightarrow> int \<Rightarrow> int \<Rightarrow> int \<Rightarrow> MemStorage" where
  "initializeDefaultData this uuid1 uuid2 uuid3 now1 now2 now3 =
    (let adminId = uuid1;
         adminUser = [''id'' \<mapsto> JStr adminId,
                      ''username'' \<mapsto> JStr ''admin'',
                      ''email'' \<mapsto> JStr ''admin@lions.com'',
                      ''password'' \<mapsto> JStr ''admin123'',
                      ''role'' \<mapsto> JStr ''admin'',
                      ''fullName'' \<mapsto> JStr ''Administrador Lions'',
                      ''profilePicture'' \<mapsto> JNull,
                      ''position'' \<mapsto> JNull,
                      ''createdAt'' \<mapsto> JDate now1];
         this1 = this\<lparr>users := Map_set (users this) adminId adminUser\<rparr>;
         athleteId = uuid2;
         athleteUser = [''id'' \<mapsto> JStr athleteId,
                        ''username'' \<mapsto> JStr ''joao'',
                        ''email'' \<mapsto> JStr ''joao@lions.com'',
                        ''password'' \<mapsto> JStr ''athlete123'',
                        ''role'' \<mapsto> JStr ''athlete'',
                        ''fullName'' \<mapsto> JStr (''Jo'' @ [CHR 0xE2, CHR 0x88, CHR 0x9A, CHR 0xC2, CHR 0xA3] @ ''o Silva''),
                        ''profilePicture'' \<mapsto> JNull,
                        ''position'' \<mapsto> JStr ''Ala'',
                        ''createdAt'' \<mapsto> JDate now2];
         this2 = this1\<lparr>users := Map_set (users this1) athleteId athleteUser\<rparr>;
         athlete = [''id'' \<mapsto> JStr uuid3,
                    ''userId'' \<mapsto> JStr athleteId,
                    ''height'' \<mapsto> JStr ''1.85m'',
                    ''weight'' \<mapsto> JStr ''78kg'',
                    ''sleepHours'' \<mapsto> JStr ''7.5'',
                    ''overallPerformance'' \<mapsto> JStr ''85.50'',
                    ''lastTraining'' \<mapsto> JDate now3]
     in this2\<lparr>athletes := Map_set (athletes this2) uuid3 athlete\<rparr>)"

text \<open>The constructor.\<close>

definition MemStorage_new ::
  "string \<Rightarrow> string \<Rightarrow> string \<Rightarrow> int \<Rightarrow> int \<Rightarrow> int \<Rightarrow> MemStorage" where
  "MemStorage_new uuid1 uuid2 uuid3 now1 now2 now3 =
     initializeDefaultData emptyStorage uuid1 uuid2 uuid3 now1 now2 now3"

subsection \<open>User methods\<close>

definition getUser :: "MemStorage \<Rightarrow> string \<Rightarrow> obj option" where
  "getUser this id' = Map_get (users this) id'"

definition getUserByUsername :: "MemStorage \<Rightarrow> string \<Rightarrow> obj option" where
  "getUserByUsername this username =
     find (\<lambda>user. getProp user ''username'' = JStr username) (Map_values (users this))"

definition getUserByEmail :: "MemStorage \<Rightarrow> string \<Rightarrow> obj option" where
  "getUserByEmail this email =
     find (\<lambda>user. getProp user ''email'' = JStr email) (Map_values (users this))"

definition createUser :: "MemStorage \<Rightarrow> string \<Rightarrow> int \<Rightarrow> obj \<Rightarrow> MemStorage \<times> obj" where
  "createUser this uuid now insertUser =
    (let id' = uuid;
         user = insertUser ++
                [''id'' \<mapsto> JStr id',
                 ''role'' \<mapsto> js_or (getProp insertUser ''role'') (JStr ''athlete''),
                 ''profilePicture'' \<mapsto> js_or (getProp insertUser ''profilePicture'') JNull,
                 ''position'' \<mapsto> js_or (getProp insertUser ''position'') JNull,
                 ''createdAt'' \<mapsto> JDate now]
     in (this\<lparr>users := Map_set (users this) id' user\<rparr>, user))"

definition updateUser :: "MemStorage \<Rightarrow> string \<Rightarrow> obj \<Rightarrow> MemStorage \<times> obj option" where
  "updateUser this id' updates =
    (case Map_get (users this) id' of
       None \<Rightarrow> (this, None)
     | Some user \<Rightarrow>
         (let updatedUser = user ++ updates
          in (this\<lparr>users := Map_set (users this) id' updatedUser\<rparr>, Some updatedUser)))"

subsection \<open>Athlete methods\<close>

definition getAthlete :: "MemStorage \<Rightarrow> string \<Rightarrow> obj option" where
  "getAthlete this id' = Map_get (athletes this) id'"

definition getAthleteByUserId :: "MemStorage \<Rightarrow> string \<Rightarrow> obj option" where
  "getAthleteByUserId this userId =
     find (\<lambda>athlete. getProp athlete ''userId'' = JStr userId) (Map_values (athletes this))"

definition getAllAthletes :: "MemStorage \<Rightarrow> obj list" where
  "getAllAthletes this = Map_values (athletes this)"

definition createAthlete :: "MemStorage \<Rightarrow> string \<Rightarrow> obj \<Rightarrow> MemStorage \<times> obj" where
  "createAthlete this uuid insertAthlete =
    (let id' = uuid;
         athlete = insertAthlete ++
                [''id'' \<mapsto> JStr id',
                 ''height'' \<mapsto> js_or (getProp insertAthlete ''height'') JNull,
                 ''weight'' \<mapsto> js_or (getProp insertAthlete ''weight'') JNull,
                 ''sleepHours'' \<mapsto> js_or (getProp insertAthlete ''sleepHours'') JNull,
                 ''overallPerformance'' \<mapsto>
                     js_or (getProp insertAthlete ''overallPerformance'') JNull,
                 ''lastTraining'' \<mapsto> js_or (getProp insertAthlete ''lastTraining'') JNull]
     in (this\<lparr>athletes := Map_set (athletes this) id' athlete\<rparr>, athlete))"

definition updateAthlete :: "MemStorage \<Rightarrow> string \<Rightarrow> obj \<Rightarrow> MemStorage \<times> obj option" where
  "updateAthlete this id' updates =
    (case Map_get (athletes this) id' of
       None \<Rightarrow> (this, None)
     | Some athlete \<Rightarrow>
         (let updatedAthlete = athlete ++ updates
          in (this\<lparr>athletes := Map_set (athletes this) id' updatedAthlete\<rparr>,
              Some updatedAthlete)))"

definition deleteAthlete :: "MemStorage \<Rightarrow> string \<Rightarrow> MemStorage \<times> bool" where
  "deleteAthlete this id' =
    (let (m, existed) = Map_delete (athletes this) id' in (this\<lparr>athletes := m\<rparr>, existed))"

subsection \<open>Exercise methods\<close>

definition getExercise :: "MemStorage \<Rightarrow> string \<Rightarrow> obj option" where
  "getExercise this id' = Map_get (exercises this) id'"

definition getAllExercises :: "MemStorage \<Rightarrow> obj list" where
  "getAllExercises this = Map_values (exercises this)"

definition getExercisesByCategory :: "MemStorage \<Rightarrow> string \<Rightarrow> obj list" where
  "getExercisesByCategory this category =
     filter (\<lambda>exercise. getProp exercise ''category'' = JStr category)
       (Map_values (exercises this))"

definition createExercise :: "MemStorage \<Rightarrow> string \<Rightarrow> obj \<Rightarrow> MemStorage \<times> obj" where
  "createExercise this uuid insertExercise =
    (let id' = uuid;
         exercise = insertExercise ++
                [''id'' \<mapsto> JStr id',
                 ''description'' \<mapsto> js_or (getProp insertExercise ''description'') JNull,
                 ''videoUrl'' \<mapsto> js_or (getProp insertExercise ''videoUrl'') JNull,
                 ''metrics'' \<mapsto> js_or (getProp insertExercise ''metrics'') JNull]
     in (this\<lparr>exercises := Map_set (exercises this) id' exercise\<rparr>, exercise))"

definition updateExercise :: "MemStorage \<Rightarrow> string \<Rightarrow> obj \<Rightarrow> MemStorage \<times> obj option" where
  "updateExercise this id' updates =
    (case Map_get (exercises this) id' of
       None \<Rightarrow> (this, None)
     | Some exercise \<Rightarrow>
         (let updatedExercise = exercise ++ updates
          in (this\<lparr>exercises := Map_set (exercises this) id' updatedExercise\<rparr>,
              Some updatedExercise)))"

definition deleteExercise :: "MemStorage \<Rightarrow> string \<Rightarrow> MemStorage \<times> bool" where
  "deleteExercise this id' =
    (let (m, existed) = Map_delete (exercises this) id' in (this\<lparr>exercises := m\<rparr>, existed))"

subsection \<open>Training session methods\<close>

definition getTrainingSession :: "MemStorage \<Rightarrow> string \<Rightarrow> obj option" where
  "getTrainingSession this id' = Map_get (trainingSessions this) id'"

definition getTrainingSessionsByAthlete :: "MemStorage \<Rightarrow> string \<Rightarrow> obj list" where
  "getTrainingSessionsByAthlete this athleteId =
     filter (\<lambda>session. getProp session ''athleteId'' = JStr athleteId)
       (Map_values (trainingSessions this))"

definition createTrainingSession ::
  "MemStorage \<Rightarrow> string \<Rightarrow> int \<Rightarrow> obj \<Rightarrow> MemStorage \<times> obj" where
  "createTrainingSession this uuid now insertSession =
    (let id' = uuid;
         session = insertSession ++
                [''id'' \<mapsto> JStr id',
                 ''results'' \<mapsto> js_or (getProp insertSession ''results'') JNull,
                 ''completedAt'' \<mapsto> JDate now]
     in (this\<lparr>trainingSessions := Map_set (trainingSessions this) id' session\<rparr>, session))"

definition updateTrainingSession ::
  "MemStorage \<Rightarrow> string \<Rightarrow> obj \<Rightarrow> MemStorage \<times> obj option" where
  "updateTrainingSession this id' updates =
    (case Map_get (trainingSessions this) id' of
       None \<Rightarrow> (this, None)
     | Some session \<Rightarrow>
         (let updatedSession = session ++ updates
          in (this\<lparr>trainingSessions := Map_set (trainingSessions this) id' updatedSession\<rparr>,
              Some updatedSession)))"

subsection \<open>Event methods\<close>

definition getEvent :: "MemStorage \<Rightarrow> string \<Rightarrow> obj option" where
  "getEvent this id' = Map_get (events this) id'"

definition getAllEvents :: "MemStorage \<Rightarrow> obj list" where
  "getAllEvents this = Map_values (events this)"

definition getUpcomingEvents :: "MemStorage \<Rightarrow> int \<Rightarrow> obj list" where
  "getUpcomingEvents this now =
     filter (\<lambda>event. date_gt (getProp event ''startDate'') now) (Map_values (events this))"

definition createEvent :: "MemStorage \<Rightarrow> string \<Rightarrow> obj \<Rightarrow> MemStorage \<times> obj" where
  "createEvent this uuid insertEvent =
    (let id' = uuid;
         event = insertEvent ++
                [''id'' \<mapsto> JStr id',
                 ''description'' \<mapsto> js_or (getProp insertEvent ''description'') JNull,
                 ''endDate'' \<mapsto> js_or (getProp insertEvent ''endDate'') JNull,
                 ''mandatory'' \<mapsto> js_or (getProp insertEvent ''mandatory'') JNull]
     in (this\<lparr>events := Map_set (events this) id' event\<rparr>, event))"

definition updateEvent :: "MemStorage \<Rightarrow> string \<Rightarrow> obj \<Rightarrow> MemStorage \<times> obj option" where
  "updateEvent this id' updates =
    (case Map_get (events this) id' of
       None \<Rightarrow> (this, None)
     | Some event \<Rightarrow>
         (let updatedEvent = event ++ updates
          in (this\<lparr>events := Map_set (events this) id' updatedEvent\<rparr>, Some updatedEvent)))"

definition deleteEvent :: "MemStorage \<Rightarrow> string \<Rightarrow> MemStorage \<times> bool" where
  "deleteEvent this id' =
    (let (m, existed) = Map_delete (events this) id' in (this\<lparr>events := m\<rparr>, existed))"

subsection \<open>Gallery methods\<close>

definition getGalleryItem :: "MemStorage \<Rightarrow> string \<Rightarrow> obj option" where
  "getGalleryItem this id' = Map_get (galleryItems this) id'"

definition getAllGalleryItems :: "MemStorage \<Rightarrow> obj list" where
  "getAllGalleryItems this = Map_values (galleryItems this)"

definition getGalleryItemsByAlbum :: "MemStorage \<Rightarrow> string \<Rightarrow> obj list" where
  "getGalleryItemsByAlbum this album =
     filter (\<lambda>item. getProp item ''album'' = JStr album) (Map_values (galleryItems this))"

definition createGalleryItem ::
  "MemStorage \<Rightarrow> string \<Rightarrow> int \<Rightarrow> obj \<Rightarrow> MemStorage \<times> obj" where
  "createGalleryItem this uuid now insertItem =
    (let id' = uuid;
         item = insertItem ++
                [''id'' \<mapsto> JStr id',
                 ''description'' \<mapsto> js_or (getProp insertItem ''description'') JNull,
                 ''album'' \<mapsto> js_or (getProp insertItem ''album'') JNull,
                 ''uploadedAt'' \<mapsto> JDate now]
     in (this\<lparr>galleryItems := Map_set (galleryItems this) id' item\<rparr>, item))"

definition deleteGalleryItem :: "MemStorage \<Rightarrow> string \<Rightarrow> MemStorage \<times> bool" where
  "deleteGalleryItem this id' =
    (let (m, existed) = Map_delete (galleryItems this) id'
     in (this\<lparr>galleryItems := m\<rparr>, existed))"

subsection \<open>Dates in local time\<close>

text \<open>
  \<^verbatim>\<open>getStartOfWeek\<close> works on a \<^verbatim>\<open>Date\<close> through \<^verbatim>\<open>getDay\<close>, \<^verbatim>\<open>getDate\<close>, \<^verbatim>\<open>setDate\<close> and
  \<^verbatim>\<open>setHours\<close>, all in local time. They follow the ECMAScript definitions on time
  values (\<open>Day\<close>, \<open>TimeWithinDay\<close>, \<open>WeekDay\<close>, \<open>MakeDate\<close>, \<open>LocalTime\<close>, \<open>UTC\<close>; day 0,
  1 January 1970, is a Thursday). Two things belong to the host and are parameters.
  The first is the time zone, as the ECMAScript operation \<open>LocalTZA(t, isUTC)\<close>: the
  offset of local time from UTC in milliseconds, at the instant \<open>t\<close> when \<open>isUTC\<close> is
  true, and for the local time value \<open>t\<close> when it is false; the offset may change from
  one instant to another, as it does with daylight saving. The second is the calendar,
  of which only the day number of the first day of the month containing a local time
  value is needed (\<open>MonthStartDay\<close>): the day of the month is counted from it, and
  \<^verbatim>\<open>MakeDay(YearFromTime(t), MonthFromTime(t), dt)\<close> is \<open>MonthStartDay t + dt - 1\<close>, also
  for \<open>dt \<le> 0\<close>. Time values are taken to be in the range of a \<^verbatim>\<open>Date\<close> (\<open>TimeClip\<close> is the
  identity there).
\<close>

record Host =
  LocalTZA :: "int \<Rightarrow> bool \<Rightarrow> int"
  MonthStartDay :: "int \<Rightarrow> int"

definition msPerDay :: int where
  "msPerDay = 86400000"

definition Day :: "int \<Rightarrow> int" where
  "Day t = t div msPerDay"

definition TimeWithinDay :: "int \<Rightarrow> int" where
  "TimeWithinDay t = t mod msPerDay"

definition WeekDay :: "int \<Rightarrow> int" where
  "WeekDay t = (Day t + 4) mod 7"

definition MakeDate :: "int \<Rightarrow> int \<Rightarrow> int" where
  "MakeDate day time = day * msPerDay + time"

definition LocalTime :: "Host \<Rightarrow> int \<Rightarrow> int" where
  "LocalTime host t = t + LocalTZA host t True"

definition UTC :: "Host \<Rightarrow> int \<Rightarrow> int" where
  "UTC host t = t - LocalTZA host t False"

definition Date_getDay :: "Host \<Rightarrow> int \<Rightarrow> int" where
  "Date_getDay host d = WeekDay (LocalTime host d)"

definition Date_getDate :: "Host \<Rightarrow> int \<Rightarrow> int" where
  "Date_getDate host d =
     (let t = LocalTime host d in Day t - MonthStartDay host t + 1)"

definition Date_setDate :: "Host \<Rightarrow> int \<Rightarrow> int \<Rightarrow> int" where
  "Date_setDate host d dt =
     (let t = LocalTime host d;
          newDate = MakeDate (MonthStartDay host t + dt - 1) (TimeWithinDay t)
      in UTC host newDate)"

text \<open>\<^verbatim>\<open>setHours(0, 0, 0, 0)\<close>.\<close>

definition Date_setHours_0 :: "Host \<Rightarrow> int \<Rightarrow> int" where
  "Date_setHours_0 host d =
     (let t = LocalTime host d in UTC host (MakeDate (Day t) 0))"

definition getStartOfWeek :: "Host \<Rightarrow> int \<Rightarrow> int" where
  "getStartOfWeek host date =
     (let start = date;
          day = Date_getDay host start;
          diff = Date_getDate host start - day;
          start1 = Date_setDate host start diff;
          start2 = Date_setHours_0 host start1
      in start2)"

subsection \<open>Best of the week methods\<close>

text \<open>\<^verbatim>\<open>Array.prototype.find\<close> with a predicate that may throw: the elements are tried
  in order, the first one that satisfies the predicate is returned, and an exception
  of the predicate ends the search.\<close>

fun find_throwing :: "('a \<Rightarrow> error + bool) \<Rightarrow> 'a list \<Rightarrow> error + 'a option" where
  "find_throwing P [] = Inr None"
| "find_throwing P (x # xs) =
     (case P x of
        Inl e \<Rightarrow> Inl e
      | Inr b \<Rightarrow> if b then Inr (Some x) else find_throwing P xs)"

definition getCurrentBestOfWeek :: "Host \<Rightarrow> MemStorage \<Rightarrow> int \<Rightarrow> error + obj option" where
  "getCurrentBestOfWeek host this now =
    (let currentWeekStart = getStartOfWeek host now
     in find_throwing
          (\<lambda>best. case getTime (getProp best ''weekStart'') of
                     Inl e \<Rightarrow> Inl e
                   | Inr t \<Rightarrow> Inr (t = currentWeekStart))
          (Map_values (bestOfWeeks this)))"

definition setBestOfWeek :: "MemStorage \<Rightarrow> string \<Rightarrow> obj \<Rightarrow> MemStorage \<times> obj" where
  "setBestOfWeek this uuid insertBestOfWeek =
    (let id' = uuid;
         bestOfWeek = insertBestOfWeek ++
                [''id'' \<mapsto> JStr id',
                 ''achievements'' \<mapsto> js_or (getProp insertBestOfWeek ''achievements'') JNull]
     in (this\<lparr>bestOfWeeks := Map_set (bestOfWeeks this) id' bestOfWeek\<rparr>, bestOfWeek))"

subsection \<open>Live stream methods\<close>

definition getLiveStream :: "MemStorage \<Rightarrow> string \<Rightarrow> obj option" where
  "getLiveStream this id' = Map_get (liveStreams this) id'"

definition getAllLiveStreams :: "MemStorage \<Rightarrow> obj list" where
  "getAllLiveStreams this = Map_values (liveStreams this)"

definition getActiveLiveStreams :: "MemStorage \<Rightarrow> obj list" where
  "getActiveLiveStreams this =
     filter (\<lambda>stream. truthy (getProp stream ''isActive'')) (Map_values (liveStreams this))"

definition createLiveStream :: "MemStorage \<Rightarrow> string \<Rightarrow> obj \<Rightarrow> MemStorage \<times> obj" where
  "createLiveStream this uuid insertStream =
    (let id' = uuid;
         stream = insertStream ++
                [''id'' \<mapsto> JStr id',
                 ''description'' \<mapsto> js_or (getProp insertStream ''description'') JNull,
                 ''category'' \<mapsto> js_or (getProp insertStream ''category'') JNull,
                 ''isActive'' \<mapsto> js_or (getProp insertStream ''isActive'') JNull,
                 ''scheduledFor'' \<mapsto> js_or (getProp insertStream ''scheduledFor'') JNull]
     in (this\<lparr>liveStreams := Map_set (liveStreams this) id' stream\<rparr>, stream))"

definition updateLiveStream :: "MemStorage \<Rightarrow> string \<Rightarrow> obj \<Rightarrow> MemStorage \<times> obj option" where
  "updateLiveStream this id' updates =
    (case Map_get (liveStreams this) id' of
       None \<Rightarrow> (this, None)
     | Some stream \<Rightarrow>
         (let updatedStream = stream ++ updates
          in (this\<lparr>liveStreams := Map_set (liveStreams this) id' updatedStream\<rparr>,
              Some updatedStream)))"

definition deleteLiveStream :: "MemStorage \<Rightarrow> string \<Rightarrow> MemStorage \<times> bool" where
  "deleteLiveStream this id' =
    (let (m, existed) = Map_delete (liveStreams this) id'
     in (this\<lparr>liveStreams := m\<rparr>, existed))"

section \<open>Histories of calls\<close>

text \<open>
  A claim about what "no operation ever" does, or about an identifier "no prior
  create returned", is about the stores that a sequence of calls can reach from the
  constructor. A \<open>call\<close> is one call of a writing operation of \<^verbatim>\<open>IStorage\<close> with its
  arguments and the answers of the environment; the reading operations leave the
  store as it is and need no entry.
\<close>

datatype call =
    CreateUser string int obj
  | UpdateUser string obj
  | CreateAthlete string obj
  | UpdateAthlete string obj
  | DeleteAthlete string
  | CreateExercise string obj
  | UpdateExercise string obj
  | DeleteExercise string
  | CreateTrainingSession string int obj
  | UpdateTrainingSession string obj
  | CreateEvent string obj
  | UpdateEvent string obj
  | DeleteEvent string
  | CreateGalleryItem string int obj
  | DeleteGalleryItem string
  | SetBestOfWeek string obj
  | CreateLiveStream string obj
  | UpdateLiveStream string obj
  | DeleteLiveStream string

fun exec :: "MemStorage \<Rightarrow> call \<Rightarrow> MemStorage" where
  "exec this (CreateUser uuid now x) = fst (createUser this uuid now x)"
| "exec this (UpdateUser id' p) = fst (updateUser this id' p)"
| "exec this (CreateAthlete uuid x) = fst (createAthlete this uuid x)"
| "exec this (UpdateAthlete id' p) = fst (updateAthlete this id' p)"
| "exec this (DeleteAthlete id') = fst (deleteAthlete this id')"
| "exec this (CreateExercise uuid x) = fst (createExercise this uuid x)"
| "exec this (UpdateExercise id' p) = fst (updateExercise this id' p)"
| "exec this (DeleteExercise id') = fst (deleteExercise this id')"
| "exec this (CreateTrainingSession uuid now x) = fst (createTrainingSession this uuid now x)"
| "exec this (UpdateTrainingSession id' p) = fst (updateTrainingSession this id' p)"
| "exec this (CreateEvent uuid x) = fst (createEvent this uuid x)"
| "exec this (UpdateEvent id' p) = fst (updateEvent this id' p)"
| "exec this (DeleteEvent id') = fst (deleteEvent this id')"
| "exec this (CreateGalleryItem uuid now x) = fst (createGalleryItem this uuid now x)"
| "exec this (DeleteGalleryItem id') = fst (deleteGalleryItem this id')"
| "exec this (SetBestOfWeek uuid x) = fst (setBestOfWeek this uuid x)"
| "exec this (CreateLiveStream uuid x) = fst (createLiveStream this uuid x)"
| "exec this (UpdateLiveStream id' p) = fst (updateLiveStream this id' p)"
| "exec this (DeleteLiveStream id') = fst (deleteLiveStream this id')"

fun run :: "MemStorage \<Rightarrow> call list \<Rightarrow> MemStorage" where
  "run this [] = this"
| "run this (c # cs) = run (exec this c) cs"

text \<open>The identifiers that the creating calls of a history returned (the \<^verbatim>\<open>id\<close> of
  the record a create returns is the identifier it drew).\<close>

fun returned_id :: "call \<Rightarrow> string set" where
  "returned_id (CreateUser uuid now x) = {uuid}"
| "returned_id (CreateAthlete uuid x) = {uuid}"
| "returned_id (CreateExercise uuid x) = {uuid}"
| "returned_id (CreateTrainingSession uuid now x) = {uuid}"
| "returned_id (CreateEvent uuid x) = {uuid}"
| "returned_id (CreateGalleryItem uuid now x) = {uuid}"
| "returned_id (SetBestOfWeek uuid x) = {uuid}"
| "returned_id (CreateLiveStream uuid x) = {uuid}"
| "returned_id c = {}"

definition returned_ids :: "call list \<Rightarrow> string set" where
  "returned_ids cs = (\<Union>c \<in> set cs. returned_id c)"

section \<open>Invariants\<close>

text \<open>The keys of all eight maps.\<close>

definition store_keys :: "MemStorage \<Rightarrow> string set" where
  "store_keys this =
     Map_keys (users this) \<union> Map_keys (athletes this) \<union> Map_keys (exercises this)
     \<union> Map_keys (trainingSessions this) \<union> Map_keys (events this)
     \<union> Map_keys (galleryItems this) \<union> Map_keys (bestOfWeeks this)
     \<union> Map_keys (liveStreams this)"

text \<open>Every record of a map carries, as its \<^verbatim>\<open>id\<close>, the key it is stored under.\<close>

definition ids_match :: "obj JSMap \<Rightarrow> bool" where
  "ids_match m = (\<forall>(k, r) \<in> set m. r ''id'' = Some (JStr k))"

definition id_inv :: "MemStorage \<Rightarrow> bool" where
  "id_inv this \<longleftrightarrow>
     ids_match (users this) \<and> ids_match (athletes this) \<and> ids_match (exercises this)
     \<and> ids_match (trainingSessions this) \<and> ids_match (events this)
     \<and> ids_match (galleryItems this) \<and> ids_match (bestOfWeeks this)
     \<and> ids_match (liveStreams this)"

text \<open>A partial record that leaves the identifier alone: it has no \<^verbatim>\<open>id\<close> property, or
  repeats the identifier the update is addressed to.\<close>

definition leaves_id :: "string \<Rightarrow> obj \<Rightarrow> bool" where
  "leaves_id id' updates \<longleftrightarrow> updates ''id'' = None \<or> updates ''id'' = Some (JStr id')"

fun keeps_id :: "call \<Rightarrow> bool" where
  "keeps_id (UpdateUser id' p) = leaves_id id' p"
| "keeps_id (UpdateAthlete id' p) = leaves_id id' p"
| "keeps_id (UpdateExercise id' p) = leaves_id id' p"
| "keeps_id (UpdateTrainingSession id' p) = leaves_id id' p"
| "keeps_id (UpdateEvent id' p) = leaves_id id' p"
| "keeps_id (UpdateLiveStream id' p) = leaves_id id' p"
| "keeps_id c = True"

text \<open>The records of a list all have a \<^verbatim>\<open>Date\<close> at a property, as the entity types say
  of \<^verbatim>\<open>startDate\<close> and \<^verbatim>\<open>weekStart\<close>.\<close>

fun is_Date :: "jsval \<Rightarrow> bool" where
  "is_Date (JDate t) = True"
| "is_Date v = False"

definition all_dates :: "string \<Rightarrow> obj list \<Rightarrow> bool" where
  "all_dates f rs = list_all (\<lambda>r. is_Date (getProp r f)) rs"

text \<open>
  The words of the claim about the week boundary: the local time value of midnight
  of the most recent Sunday, seen from the local time of \<open>now\<close>.
\<close>

definition sundayMidnight :: "Host \<Rightarrow> int \<Rightarrow> int" where
  "sundayMidnight host now =
     (let t = LocalTime host now in MakeDate (Day t - WeekDay t) 0)"

text \<open>
  A clock change can skip local times. A local time value is shown by the host's
  clock when converting it to an instant and back gives it again; it keeps its day
  when the way back at least lands on the same local day (a skipped time of day is
  moved by the width of the gap).
\<close>

definition shown :: "Host \<Rightarrow> int \<Rightarrow> bool" where
  "shown host l \<longleftrightarrow> LocalTime host (UTC host l) = l"

definition keeps_day :: "Host \<Rightarrow> int \<Rightarrow> bool" where
  "keeps_day host l \<longleftrightarrow> Day (LocalTime host (UTC host l)) = Day l"

section \<open>Example inputs\<close>

text \<open>A freshly constructed store, and one in which the identifier \<open>k\<close> is a key of
  every map that has an update operation.\<close>

definition exampleStore :: MemStorage where
  "exampleStore = MemStorage_new ''admin-id'' ''joao-id'' ''profile-id'' 0 0 0"

definition exampleInput :: obj where
  "exampleInput = [''title'' \<mapsto> JStr ''t'']"

definition examplePatch :: obj where
  "examplePatch = [''title'' \<mapsto> JStr ''new'']"

definition exampleFull :: MemStorage where
  "exampleFull = run exampleStore
     [CreateUser ''k'' 0 exampleInput, CreateAthlete ''k'' exampleInput,
      CreateExercise ''k'' exampleInput, CreateTrainingSession ''k'' 0 exampleInput,
      CreateEvent ''k'' exampleInput, CreateLiveStream ''k'' exampleInput]"

text \<open>A partial record that names another identifier.\<close>

definition exampleIdPatch :: obj where
  "exampleIdPatch = [''id'' \<mapsto> JStr ''other'']"

text \<open>A gallery item without \<^verbatim>\<open>album\<close>; an event without \<^verbatim>\<open>mandatory\<close>, and the same
  event with \<^verbatim>\<open>mandatory: false\<close>.\<close>

definition exampleGalleryInput :: obj where
  "exampleGalleryInput =
     [''title'' \<mapsto> JStr ''Final'', ''mediaType'' \<mapsto> JStr ''image'',
      ''url'' \<mapsto> JStr ''/final.png'', ''uploadedBy'' \<mapsto> JStr ''admin-id'']"

definition exampleEventInput :: obj where
  "exampleEventInput =
     [''title'' \<mapsto> JStr ''Treino'', ''eventType'' \<mapsto> JStr ''training'',
      ''startDate'' \<mapsto> JDate 1000, ''createdBy'' \<mapsto> JStr ''admin-id'']"

definition exampleEventInputFalse :: obj where
  "exampleEventInputFalse = exampleEventInput(''mandatory'' \<mapsto> JBool False)"

text \<open>Two events: one that starts at time 1000, one that starts at time 2000.\<close>

definition exampleEvents :: MemStorage where
  "exampleEvents = run exampleStore
     [CreateEvent ''e1'' exampleEventInput,
      CreateEvent ''e2'' (exampleEventInput(''startDate'' \<mapsto> JDate 2000))]"

text \<open>
  A host on New York time around the end of daylight saving on Sunday 1 November
  2026: local time is four hours behind UTC before 06:00 UTC of that day and five
  hours behind from then on; a local time of the repeated hour is read with the
  offset before the change. Its calendar is that of November 2026, whose first day
  has day number 20758. The current time is Saturday 7 November, 23:30 local time;
  the week it lies in starts on 1 November at 00:00 local time, which is 04:00 UTC,
  seven days and half an hour earlier. Two highlight records are set for that week.
\<close>

definition exampleHost :: Host where
  "exampleHost =
     \<lparr> LocalTZA = (\<lambda>t isUTC.
          if isUTC then (if t < 1793512800000 then - 14400000 else - 18000000)
          else (if t < 1793498400000 then - 14400000 else - 18000000)),
       MonthStartDay = (\<lambda>t. 20758) \<rparr>"

definition exampleNow :: int where
  "exampleNow = 1794112200000"

definition exampleBest :: obj where
  "exampleBest =
     [''athleteId'' \<mapsto> JStr ''profile-id'', ''weekStart'' \<mapsto> JDate 1793505600000,
      ''setBy'' \<mapsto> JStr ''admin-id'']"

definition exampleBests :: MemStorage where
  "exampleBests =
     run exampleStore [SetBestOfWeek ''b1'' exampleBest, SetBestOfWeek ''b2'' exampleBest]"

text \<open>The two highlight records of that store.\<close>

definition exampleBest1 :: obj where
  "exampleBest1 = snd (setBestOfWeek exampleStore ''b1'' exampleBest)"

definition exampleBest2 :: obj where
  "exampleBest2 = snd (setBestOfWeek exampleStore ''b2'' exampleBest)"

section \<open>The map operations\<close>

lemma Map_get_set: "Map_get (Map_set m k v) k' = (if k' = k then Some v else Map_get m k')"
  by (induction m) auto

lemma Map_get_filter:
  "Map_get (filter (\<lambda>e. fst e \<noteq> k) m) k' = (if k' = k then None else Map_get m k')"
  by (induction m) auto

lemma Map_get_delete:
  "Map_get (fst (Map_delete m k)) k' = (if k' = k then None else Map_get m k')"
  by (simp add: Map_delete_def Map_get_filter)

lemma Map_get_None_iff: "Map_get m k = None \<longleftrightarrow> k \<notin> Map_keys m"
  by (induction m) (auto simp: Map_keys_def split: if_splits)

lemma Map_get_in_set: "Map_get m k = Some v \<Longrightarrow> (k, v) \<in> set m"
  by (induction m) (auto split: if_splits)

lemma Map_delete_absent: "Map_get m k = None \<Longrightarrow> Map_delete m k = (m, False)"
  by (induction m) (auto simp: Map_delete_def Map_has_def split: if_splits)

lemma Map_keys_set: "Map_keys (Map_set m k v) = insert k (Map_keys m)"
proof -
  have "k' \<in> Map_keys (Map_set m k v) \<longleftrightarrow> k' \<in> insert k (Map_keys m)" for k'
    using Map_get_None_iff [of "Map_set m k v" k'] Map_get_None_iff [of m k']
    by (simp add: Map_get_set split: if_splits)
  then show ?thesis by blast
qed

lemma Map_keys_delete: "Map_keys (fst (Map_delete m k)) = Map_keys m - {k}"
  by (auto simp: Map_keys_def Map_delete_def)

lemma set_Map_set: "set (Map_set m k v) \<subseteq> insert (k, v) (set m)"
  by (induction m) (auto split: if_splits)

lemma set_Map_delete: "set (fst (Map_delete m k)) \<subseteq> set m"
  by (auto simp: Map_delete_def)

lemmas create_defs =
  createUser_def createAthlete_def createExercise_def createTrainingSession_def
  createEvent_def createGalleryItem_def setBestOfWeek_def createLiveStream_def

lemmas update_defs =
  updateUser_def updateAthlete_def updateExercise_def updateTrainingSession_def
  updateEvent_def updateLiveStream_def

lemmas delete_defs =
  deleteAthlete_def deleteExercise_def deleteEvent_def deleteGalleryItem_def
  deleteLiveStream_def

lemmas get_defs =
  getUser_def getAthlete_def getExercise_def getTrainingSession_def getEvent_def
  getGalleryItem_def getLiveStream_def

lemmas example_store_defs =
  exampleStore_def MemStorage_new_def initializeDefaultData_def emptyStorage_def

section \<open>Create, then look up\<close>

text \<open>
  Claim C1. For every entity kind and every create input, the record that create
  returns carries the generated identifier, and the point lookup with that
  identifier, on the store that create leaves, returns that very record, generated
  timestamps included. The highlight records have no point lookup in \<^verbatim>\<open>IStorage\<close>;
  for them the record is the one found in the map under the generated identifier.
\<close>

theorem get_after_create:
  "(getProp (snd (createUser this uuid now x)) ''id'' = JStr uuid
      \<and> getProp (snd (createUser this uuid now x)) ''createdAt'' = JDate now
      \<and> getUser (fst (createUser this uuid now x)) uuid = Some (snd (createUser this uuid now x)))
   \<and> (getProp (snd (createAthlete this uuid x)) ''id'' = JStr uuid
      \<and> getAthlete (fst (createAthlete this uuid x)) uuid = Some (snd (createAthlete this uuid x)))
   \<and> (getProp (snd (createExercise this uuid x)) ''id'' = JStr uuid
      \<and> getExercise (fst (createExercise this uuid x)) uuid
          = Some (snd (createExercise this uuid x)))
   \<and> (getProp (snd (createTrainingSession this uuid now x)) ''id'' = JStr uuid
      \<and> getProp (snd (createTrainingSession this uuid now x)) ''completedAt'' = JDate now
      \<and> getTrainingSession (fst (createTrainingSession this uuid now x)) uuid
          = Some (snd (createTrainingSession this uuid now x)))
   \<and> (getProp (snd (createEvent this uuid x)) ''id'' = JStr uuid
      \<and> getEvent (fst (createEvent this uuid x)) uuid = Some (snd (createEvent this uuid x)))
   \<and> (getProp (snd (createGalleryItem this uuid now x)) ''id'' = JStr uuid
      \<and> getProp (snd (createGalleryItem this uuid now x)) ''uploadedAt'' = JDate now
      \<and> getGalleryItem (fst (createGalleryItem this uuid now x)) uuid
          = Some (snd (createGalleryItem this uuid now x)))
   \<and> (getProp (snd (createLiveStream this uuid x)) ''id'' = JStr uuid
      \<and> getLiveStream (fst (createLiveStream this uuid x)) uuid
          = Some (snd (createLiveStream this uuid x)))
   \<and> (getProp (snd (setBestOfWeek this uuid x)) ''id'' = JStr uuid
      \<and> Map_get (bestOfWeeks (fst (setBestOfWeek this uuid x))) uuid
          = Some (snd (setBestOfWeek this uuid x)))"
  by (simp add: create_defs get_defs Let_def Map_get_set getProp_def)

section \<open>Delete, then look up\<close>

text \<open>
  Claim C9. For each of the five entity kinds with a delete operation and every
  identifier: after \<^verbatim>\<open>delete(id)\<close> the point lookup of \<^verbatim>\<open>id\<close> answers not-found, and a
  second \<^verbatim>\<open>delete(id)\<close> answers \<^verbatim>\<open>false\<close>.
\<close>

theorem get_after_delete:
  "(getAthlete (fst (deleteAthlete this id')) id' = None
      \<and> snd (deleteAthlete (fst (deleteAthlete this id')) id') = False)
   \<and> (getExercise (fst (deleteExercise this id')) id' = None
      \<and> snd (deleteExercise (fst (deleteExercise this id')) id') = False)
   \<and> (getEvent (fst (deleteEvent this id')) id' = None
      \<and> snd (deleteEvent (fst (deleteEvent this id')) id') = False)
   \<and> (getGalleryItem (fst (deleteGalleryItem this id')) id' = None
      \<and> snd (deleteGalleryItem (fst (deleteGalleryItem this id')) id') = False)
   \<and> (getLiveStream (fst (deleteLiveStream this id')) id' = None
      \<and> snd (deleteLiveStream (fst (deleteLiveStream this id')) id') = False)"
  by (simp add: delete_defs get_defs Map_delete_def Map_has_def Map_get_filter)

section \<open>Partial updates\<close>

text \<open>
  Claim C2. For each of the six entity kinds with an update operation, every
  identifier that is a key of the store and every partial record: the update returns
  a record, that record is the one stored under the identifier afterwards, every
  property present in the partial record has in it exactly the value the partial
  record gives, and every property absent from the partial record has the value it
  had in the record stored before.
\<close>

theorem update_merges_fields:
  "(getUser this id' = Some r \<longrightarrow>
      (\<exists>r'. snd (updateUser this id' updates) = Some r'
         \<and> getUser (fst (updateUser this id' updates)) id' = Some r'
         \<and> (\<forall>f \<in> dom updates. r' f = updates f)
         \<and> (\<forall>f. f \<notin> dom updates \<longrightarrow> r' f = r f)))
   \<and> (getAthlete this id' = Some r \<longrightarrow>
      (\<exists>r'. snd (updateAthlete this id' updates) = Some r'
         \<and> getAthlete (fst (updateAthlete this id' updates)) id' = Some r'
         \<and> (\<forall>f \<in> dom updates. r' f = updates f)
         \<and> (\<forall>f. f \<notin> dom updates \<longrightarrow> r' f = r f)))
   \<and> (getExercise this id' = Some r \<longrightarrow>
      (\<exists>r'. snd (updateExercise this id' updates) = Some r'
         \<and> getExercise (fst (updateExercise this id' updates)) id' = Some r'
         \<and> (\<forall>f \<in> dom updates. r' f = updates f)
         \<and> (\<forall>f. f \<notin> dom updates \<longrightarrow> r' f = r f)))
   \<and> (getTrainingSession this id' = Some r \<longrightarrow>
      (\<exists>r'. snd (updateTrainingSession this id' updates) = Some r'
         \<and> getTrainingSession (fst (updateTrainingSession this id' updates)) id' = Some r'
         \<and> (\<forall>f \<in> dom updates. r' f = updates f)
         \<and> (\<forall>f. f \<notin> dom updates \<longrightarrow> r' f = r f)))
   \<and> (getEvent this id' = Some r \<longrightarrow>
      (\<exists>r'. snd (updateEvent this id' updates) = Some r'
         \<and> getEvent (fst (updateEvent this id' updates)) id' = Some r'
         \<and> (\<forall>f \<in> dom updates. r' f = updates f)
         \<and> (\<forall>f. f \<notin> dom updates \<longrightarrow> r' f = r f)))
   \<and> (getLiveStream this id' = Some r \<longrightarrow>
      (\<exists>r'. snd (updateLiveStream this id' updates) = Some r'
         \<and> getLiveStream (fst (updateLiveStream this id' updates)) id' = Some r'
         \<and> (\<forall>f \<in> dom updates. r' f = updates f)
         \<and> (\<forall>f. f \<notin> dom updates \<longrightarrow> r' f = r f)))"
  by (simp add: get_defs update_defs Let_def Map_get_set map_add_dom_app_simps)

text \<open>In the example store, \<open>k\<close> is a key of all six maps.\<close>

lemma exampleFull_lookups:
  "getUser exampleFull ''k'' \<noteq> None \<and> getAthlete exampleFull ''k'' \<noteq> None
   \<and> getExercise exampleFull ''k'' \<noteq> None \<and> getTrainingSession exampleFull ''k'' \<noteq> None
   \<and> getEvent exampleFull ''k'' \<noteq> None \<and> getLiveStream exampleFull ''k'' \<noteq> None"
  by (simp add: exampleFull_def example_store_defs create_defs get_defs Let_def)

lemma exampleFull_user:
  "\<exists>r. getUser exampleFull ''k'' = Some r \<and> r ''id'' = Some (JStr ''k'')"
  by (simp add: exampleFull_def example_store_defs create_defs get_defs Let_def)

theorem update_merges_fields_witness:
  "getUser exampleFull ''k'' \<noteq> None \<and> getAthlete exampleFull ''k'' \<noteq> None
   \<and> getExercise exampleFull ''k'' \<noteq> None \<and> getTrainingSession exampleFull ''k'' \<noteq> None
   \<and> getEvent exampleFull ''k'' \<noteq> None \<and> getLiveStream exampleFull ''k'' \<noteq> None
   \<and> (\<exists>r'. snd (updateUser exampleFull ''k'' examplePatch) = Some r'
         \<and> getUser (fst (updateUser exampleFull ''k'' examplePatch)) ''k'' = Some r'
         \<and> r' ''title'' = Some (JStr ''new'') \<and> r' ''id'' = Some (JStr ''k''))"
proof -
  obtain r where r: "getUser exampleFull ''k'' = Some r" "r ''id'' = Some (JStr ''k'')"
    using exampleFull_user by blast
  have "\<exists>r'. snd (updateUser exampleFull ''k'' examplePatch) = Some r'
         \<and> getUser (fst (updateUser exampleFull ''k'' examplePatch)) ''k'' = Some r'
         \<and> (\<forall>f \<in> dom examplePatch. r' f = examplePatch f)
         \<and> (\<forall>f. f \<notin> dom examplePatch \<longrightarrow> r' f = r f)"
    using update_merges_fields [of exampleFull "''k''" r examplePatch] r(1) by blast
  then obtain r' where r':
    "snd (updateUser exampleFull ''k'' examplePatch) = Some r'"
    "getUser (fst (updateUser exampleFull ''k'' examplePatch)) ''k'' = Some r'"
    "\<forall>f \<in> dom examplePatch. r' f = examplePatch f"
    "\<forall>f. f \<notin> dom examplePatch \<longrightarrow> r' f = r f"
    by blast
  have "r' ''title'' = Some (JStr ''new'')"
    using r'(3) by (simp add: examplePatch_def)
  moreover have "r' ''id'' = Some (JStr ''k'')"
    using r'(4) r(2) by (simp add: examplePatch_def)
  ultimately show ?thesis
    using exampleFull_lookups r'(1,2) by blast
qed

section \<open>Defaults of omitted fields\<close>

lemma createEvent_pair:
  "createEvent this uuid x =
     (this\<lparr>events := Map_set (events this) uuid (snd (createEvent this uuid x))\<rparr>,
      snd (createEvent this uuid x))"
  by (simp add: createEvent_def Let_def)

lemma createEvent_stored:
  "getEvent (fst (createEvent this uuid x)) uuid = Some (snd (createEvent this uuid x))"
  by (simp add: createEvent_def getEvent_def Let_def Map_get_set)

text \<open>
  Claim C10. When \<^verbatim>\<open>createEvent\<close> is given \<^verbatim>\<open>mandatory: false\<close>, the record that the store
  holds under the new identifier afterwards, which is the record returned, has the
  property \<^verbatim>\<open>mandatory\<close> present with the value \<^verbatim>\<open>null\<close>, not \<^verbatim>\<open>false\<close>. The call whose input
  omits \<^verbatim>\<open>mandatory\<close> stores that same record, with \<^verbatim>\<open>mandatory\<close> equal to \<^verbatim>\<open>null\<close> as well,
  and leaves the same store: the two inputs cannot be told apart afterwards. (Records
  are compared by the values of their properties; the order in which an object lists
  its properties is not part of the model.)
\<close>

theorem createEvent_false_mandatory:
  "insertEvent ''mandatory'' = Some (JBool False) \<Longrightarrow>
     getEvent (fst (createEvent this uuid insertEvent)) uuid
       = Some (snd (createEvent this uuid insertEvent))
     \<and> snd (createEvent this uuid insertEvent) ''mandatory'' = Some JNull
     \<and> getProp (snd (createEvent this uuid insertEvent)) ''mandatory'' = JNull
     \<and> getEvent (fst (createEvent this uuid (insertEvent(''mandatory'' := None)))) uuid
       = Some (snd (createEvent this uuid insertEvent))
     \<and> createEvent this uuid insertEvent
         = createEvent this uuid (insertEvent(''mandatory'' := None))"
proof -
  assume a: "insertEvent ''mandatory'' = Some (JBool False)"
  let ?omitted = "insertEvent(''mandatory'' := None)"
  have present: "snd (createEvent this uuid insertEvent) ''mandatory'' = Some JNull"
    using a by (simp add: createEvent_def Let_def getProp_def js_or_def)
  then have read: "getProp (snd (createEvent this uuid insertEvent)) ''mandatory'' = JNull"
    by (simp add: getProp_def)
  have "snd (createEvent this uuid insertEvent) f = snd (createEvent this uuid ?omitted) f"
    for f
    using a by (simp add: createEvent_def Let_def getProp_def js_or_def map_add_def)
  then have same: "snd (createEvent this uuid insertEvent) = snd (createEvent this uuid ?omitted)"
    by (rule ext)
  then have calls: "createEvent this uuid insertEvent = createEvent this uuid ?omitted"
    using createEvent_pair [of this uuid insertEvent] createEvent_pair [of this uuid ?omitted]
    by simp
  have "getEvent (fst (createEvent this uuid ?omitted)) uuid
          = Some (snd (createEvent this uuid insertEvent))"
    using createEvent_stored [of this uuid ?omitted] same by simp
  with present read calls createEvent_stored [of this uuid insertEvent] show ?thesis
    by blast
qed

theorem createEvent_false_mandatory_witness:
  "exampleEventInputFalse ''mandatory'' = Some (JBool False)
   \<and> getEvent (fst (createEvent exampleStore ''e1'' exampleEventInputFalse)) ''e1''
       = Some (snd (createEvent exampleStore ''e1'' exampleEventInputFalse))
   \<and> snd (createEvent exampleStore ''e1'' exampleEventInputFalse) ''mandatory'' = Some JNull
   \<and> getEvent (fst (createEvent exampleStore ''e1'' exampleEventInput)) ''e1''
       = Some (snd (createEvent exampleStore ''e1'' exampleEventInputFalse))
   \<and> createEvent exampleStore ''e1'' exampleEventInputFalse
       = createEvent exampleStore ''e1'' exampleEventInput"
proof -
  have h: "exampleEventInputFalse ''mandatory'' = Some (JBool False)"
    by (simp add: exampleEventInputFalse_def)
  have e: "exampleEventInputFalse(''mandatory'' := None) = exampleEventInput"
    by (rule ext) (simp add: exampleEventInputFalse_def exampleEventInput_def)
  have "getEvent (fst (createEvent exampleStore ''e1'' exampleEventInputFalse)) ''e1''
       = Some (snd (createEvent exampleStore ''e1'' exampleEventInputFalse))
     \<and> snd (createEvent exampleStore ''e1'' exampleEventInputFalse) ''mandatory'' = Some JNull
     \<and> getProp (snd (createEvent exampleStore ''e1'' exampleEventInputFalse)) ''mandatory''
         = JNull
     \<and> getEvent (fst (createEvent exampleStore ''e1''
           (exampleEventInputFalse(''mandatory'' := None)))) ''e1''
         = Some (snd (createEvent exampleStore ''e1'' exampleEventInputFalse))
     \<and> createEvent exampleStore ''e1'' exampleEventInputFalse
         = createEvent exampleStore ''e1'' (exampleEventInputFalse(''mandatory'' := None))"
    using createEvent_false_mandatory [of exampleEventInputFalse exampleStore "''e1''"] h
    by blast
  then show ?thesis
    using h unfolding e by blast
qed

text \<open>
  Claim C7. The claim is that an event created without \<^verbatim>\<open>mandatory\<close> is stored with
  \<^verbatim>\<open>mandatory\<close> equal to \<^verbatim>\<open>false\<close>, the default that \<^verbatim>\<open>shared/schema.ts\<close> declares. The code
  evaluated at such an input: the property is present in the stored record, but its
  value is \<^verbatim>\<open>null\<close>, not \<^verbatim>\<open>false\<close>.
\<close>

theorem createEvent_omitted_mandatory:
  "exampleEventInput ''mandatory'' = None
   \<and> getEvent (fst (createEvent exampleStore ''e1'' exampleEventInput)) ''e1''
       = Some (snd (createEvent exampleStore ''e1'' exampleEventInput))
   \<and> getProp (snd (createEvent exampleStore ''e1'' exampleEventInput)) ''mandatory'' = JNull
   \<and> getProp (snd (createEvent exampleStore ''e1'' exampleEventInput)) ''mandatory''
       \<noteq> JBool False"
  by (simp add: createEvent_def getEvent_def Let_def Map_get_set getProp_def js_or_def
      exampleEventInput_def)

text \<open>
  Claim C4. The claim is that a gallery item created without \<^verbatim>\<open>album\<close> is stored with
  \<^verbatim>\<open>album\<close> equal to \<^verbatim>\<open>"general"\<close>, the default that \<^verbatim>\<open>shared/schema.ts\<close> declares, and is
  among the items of the album \<^verbatim>\<open>"general"\<close>. The code evaluated at such an input, on a
  freshly constructed store: the item is stored with \<^verbatim>\<open>album\<close> equal to \<^verbatim>\<open>null\<close>, and
  \<^verbatim>\<open>getGalleryItemsByAlbum("general")\<close> returns the empty list.
\<close>

theorem createGalleryItem_omitted_album:
  "exampleGalleryInput ''album'' = None
   \<and> getGalleryItem (fst (createGalleryItem exampleStore ''g1'' 0 exampleGalleryInput)) ''g1''
       = Some (snd (createGalleryItem exampleStore ''g1'' 0 exampleGalleryInput))
   \<and> getProp (snd (createGalleryItem exampleStore ''g1'' 0 exampleGalleryInput)) ''album'' = JNull
   \<and> getGalleryItemsByAlbum (fst (createGalleryItem exampleStore ''g1'' 0 exampleGalleryInput))
        ''general'' = []"
  by (simp add: createGalleryItem_def getGalleryItem_def getGalleryItemsByAlbum_def Let_def
      Map_get_set getProp_def js_or_def exampleGalleryInput_def example_store_defs Map_values_def)

section \<open>Upcoming events\<close>

lemma all_dates_iff: "all_dates f rs \<longleftrightarrow> (\<forall>r \<in> set rs. \<exists>t. getProp r f = JDate t)"
proof -
  have "is_Date v \<longleftrightarrow> (\<exists>t. v = JDate t)" for v
    by (cases v) auto
  then show ?thesis
    by (simp add: all_dates_def list_all_iff)
qed

lemma date_gt_iff: "date_gt v T \<longleftrightarrow> (\<exists>t. v = JDate t \<and> T < t)"
  by (cases v) auto

text \<open>
  Claim C6. In a store whose events have dates as \<^verbatim>\<open>startDate\<close>, and for a current time
  \<open>T\<close>: an event is in the result of \<^verbatim>\<open>getUpcomingEvents\<close> exactly when it is a stored
  event whose \<^verbatim>\<open>startDate\<close> is strictly greater than \<open>T\<close>; no event whose \<^verbatim>\<open>startDate\<close> is
  less than or equal to \<open>T\<close> is in the result; in particular an event that starts
  exactly at \<open>T\<close> is excluded.
\<close>

theorem upcoming_events_strictly_after:
  assumes "all_dates ''startDate'' (getAllEvents this)"
  shows "(\<forall>e. e \<in> set (getUpcomingEvents this T) \<longleftrightarrow>
              e \<in> set (getAllEvents this) \<and> (\<exists>t. getProp e ''startDate'' = JDate t \<and> T < t))
         \<and> (\<forall>e t. getProp e ''startDate'' = JDate t \<and> t \<le> T
                \<longrightarrow> e \<notin> set (getUpcomingEvents this T))
         \<and> (\<forall>e. getProp e ''startDate'' = JDate T \<longrightarrow> e \<notin> set (getUpcomingEvents this T))"
  by (auto simp: getUpcomingEvents_def getAllEvents_def date_gt_iff)

lemma exampleEvents_lookups:
  "\<exists>e1 e2. getEvent exampleEvents ''e1'' = Some e1 \<and> getEvent exampleEvents ''e2'' = Some e2
     \<and> getProp e1 ''startDate'' = JDate 1000 \<and> getProp e2 ''startDate'' = JDate 2000
     \<and> getAllEvents exampleEvents = [e1, e2]"
  by (simp add: exampleEvents_def example_store_defs createEvent_def getEvent_def
      getAllEvents_def Map_values_def Let_def getProp_def exampleEventInput_def)

theorem upcoming_events_strictly_after_witness:
  "all_dates ''startDate'' (getAllEvents exampleEvents)
   \<and> (\<exists>e1 e2. getEvent exampleEvents ''e1'' = Some e1 \<and> getEvent exampleEvents ''e2'' = Some e2
         \<and> getProp e1 ''startDate'' = JDate 1000 \<and> getProp e2 ''startDate'' = JDate 2000
         \<and> e1 \<notin> set (getUpcomingEvents exampleEvents 1000)
         \<and> e2 \<in> set (getUpcomingEvents exampleEvents 1000))"
proof -
  obtain e1 e2 where e:
    "getEvent exampleEvents ''e1'' = Some e1" "getEvent exampleEvents ''e2'' = Some e2"
    "getProp e1 ''startDate'' = JDate 1000" "getProp e2 ''startDate'' = JDate 2000"
    "getAllEvents exampleEvents = [e1, e2]"
    using exampleEvents_lookups by blast
  have d: "all_dates ''startDate'' (getAllEvents exampleEvents)"
    using e(3,4,5) by (simp add: all_dates_def)
  have "e1 \<notin> set (getUpcomingEvents exampleEvents 1000)"
    using upcoming_events_strictly_after [OF d, of 1000] e(3) by blast
  moreover have "e2 \<in> set (getUpcomingEvents exampleEvents 1000)"
    using upcoming_events_strictly_after [OF d, of 1000] e(4,5) by simp
  ultimately show ?thesis
    using d e by blast
qed

section \<open>The start of the week\<close>

lemma msPerDay_pos: "0 < msPerDay"
  by (simp add: msPerDay_def)

lemma Day_MakeDate: "0 \<le> r \<Longrightarrow> r < msPerDay \<Longrightarrow> Day (MakeDate d r) = d"
  using msPerDay_pos by (simp add: Day_def MakeDate_def)

lemma TimeWithinDay_MakeDate_0: "TimeWithinDay (MakeDate d 0) = 0"
  by (simp add: TimeWithinDay_def MakeDate_def)

lemma TimeWithinDay_bounds: "0 \<le> TimeWithinDay t \<and> TimeWithinDay t < msPerDay"
  using msPerDay_pos by (simp add: TimeWithinDay_def)

lemma Day_decomp: "t = MakeDate (Day t) (TimeWithinDay t)"
  by (simp add: MakeDate_def Day_def TimeWithinDay_def)

lemma WeekDay_bounds: "0 \<le> WeekDay t \<and> WeekDay t < 7"
  by (simp add: WeekDay_def)

text \<open>The result of \<^verbatim>\<open>getStartOfWeek\<close> does not depend on the calendar: going back by the
  day of the week from the day of the month lands on the day number of the Sunday,
  at the current time of day. That local time is turned into an instant, the instant
  is read in local time again, and midnight of its day is turned into an instant.\<close>

lemma getStartOfWeek_unfold:
  "getStartOfWeek host now =
     UTC host (MakeDate
       (Day (LocalTime host
          (UTC host (sundayMidnight host now + TimeWithinDay (LocalTime host now))))) 0)"
  by (simp add: getStartOfWeek_def Date_getDay_def Date_getDate_def Date_setDate_def
      Date_setHours_0_def sundayMidnight_def MakeDate_def Let_def)

lemma Day_sundayMidnight_plus:
  "Day (sundayMidnight host now + TimeWithinDay (LocalTime host now))
     = Day (LocalTime host now) - WeekDay (LocalTime host now)"
proof -
  have "sundayMidnight host now + TimeWithinDay (LocalTime host now)
          = MakeDate (Day (LocalTime host now) - WeekDay (LocalTime host now))
              (TimeWithinDay (LocalTime host now))"
    by (simp add: sundayMidnight_def MakeDate_def Let_def)
  then show ?thesis
    using TimeWithinDay_bounds [of "LocalTime host now"] by (simp add: Day_MakeDate)
qed

lemma getStartOfWeek_sunday:
  assumes "keeps_day host (sundayMidnight host now + TimeWithinDay (LocalTime host now))"
    and "shown host (sundayMidnight host now)"
  shows "LocalTime host (getStartOfWeek host now) = sundayMidnight host now"
proof -
  have "Day (LocalTime host
          (UTC host (sundayMidnight host now + TimeWithinDay (LocalTime host now))))
        = Day (LocalTime host now) - WeekDay (LocalTime host now)"
    using assms(1) by (simp add: keeps_day_def Day_sundayMidnight_plus)
  then have "getStartOfWeek host now = UTC host (sundayMidnight host now)"
    by (simp add: getStartOfWeek_unfold sundayMidnight_def Let_def)
  then show ?thesis
    using assms(2) by (simp add: shown_def)
qed

lemma sundayMidnight_facts:
  "WeekDay (sundayMidnight host now) = 0
   \<and> TimeWithinDay (sundayMidnight host now) = 0
   \<and> sundayMidnight host now \<le> LocalTime host now
   \<and> LocalTime host now < sundayMidnight host now + 7 * msPerDay"
proof -
  define t where "t = LocalTime host now"
  define w where "w = WeekDay t"
  define s where "s = MakeDate (Day t - w) 0"
  have l: "sundayMidnight host now = s"
    by (simp add: sundayMidnight_def Let_def s_def w_def t_def)
  have w: "0 \<le> w" "w \<le> 6"
    using WeekDay_bounds [of t] by (simp_all add: w_def)
  have "Day s = Day t - (Day t + 4) mod 7"
    using msPerDay_pos by (simp add: s_def Day_MakeDate w_def WeekDay_def)
  then have "WeekDay s = (Day t - (Day t + 4) mod 7 + 4) mod 7"
    by (simp only: WeekDay_def)
  also have "\<dots> = 0"
    by presburger
  finally have sunday: "WeekDay s = 0" .
  have midnight: "TimeWithinDay s = 0"
    by (simp add: s_def TimeWithinDay_MakeDate_0)
  have t: "t = Day t * msPerDay + TimeWithinDay t"
    using Day_decomp [of t] by (simp add: MakeDate_def)
  have s: "s = Day t * msPerDay - w * msPerDay"
    by (simp add: s_def MakeDate_def algebra_simps)
  have "0 \<le> w * msPerDay"
    using w(1) msPerDay_pos by simp
  then have le: "s \<le> t"
    using t s TimeWithinDay_bounds [of t] by linarith
  have "w * msPerDay \<le> 6 * msPerDay"
    using w(2) msPerDay_pos by simp
  then have lt: "t < s + 7 * msPerDay"
    using t s TimeWithinDay_bounds [of t] by linarith
  from sunday midnight le lt show ?thesis
    by (simp add: l t_def)
qed

section \<open>The current best of the week\<close>

lemma is_Date_iff: "is_Date v \<longleftrightarrow> (\<exists>t. v = JDate t)"
  by (cases v) auto

lemma find_throwing_dates:
  "all_dates f rs \<Longrightarrow>
     find_throwing
       (\<lambda>b. case getTime (getProp b f) of Inl e \<Rightarrow> Inl e | Inr t \<Rightarrow> Inr (t = c)) rs
     = Inr (find (\<lambda>b. getProp b f = JDate c) rs)"
proof (induction rs)
  case Nil
  then show ?case by simp
next
  case (Cons r rs)
  then obtain t where "getProp r f = JDate t"
    by (auto simp: all_dates_def is_Date_iff)
  with Cons show ?case
    by (simp add: all_dates_def)
qed

text \<open>
  Claim C5, amended. In a store whose highlight records have dates as \<^verbatim>\<open>weekStart\<close>, on
  any host (its time zone offset may change with the instant, as with daylight
  saving), \<^verbatim>\<open>getCurrentBestOfWeek\<close> returns the first stored record, in insertion
  order, whose \<^verbatim>\<open>weekStart\<close> is equal to the millisecond to the boundary that
  \<^verbatim>\<open>getStartOfWeek\<close> computes from the current time. A record it returns is a stored
  record with exactly that \<^verbatim>\<open>weekStart\<close>, so a record whose \<^verbatim>\<open>weekStart\<close> differs by any
  amount is never returned; it answers not-found exactly when no stored record has
  that \<^verbatim>\<open>weekStart\<close>. Where no clock change of the host skips midnight of the most
  recent Sunday or moves that Sunday's occurrence of the current time of day to
  another day, the boundary is that midnight: read in local time it is a Sunday with
  hours, minutes, seconds and milliseconds zero, not after the current local time and
  less than seven days of local time before it.
\<close>

theorem current_best_of_week:
  assumes "all_dates ''weekStart'' (Map_values (bestOfWeeks this))"
  shows "getCurrentBestOfWeek host this now
           = Inr (find (\<lambda>best. getProp best ''weekStart'' = JDate (getStartOfWeek host now))
                    (Map_values (bestOfWeeks this)))
         \<and> (\<forall>r. getCurrentBestOfWeek host this now = Inr (Some r) \<longrightarrow>
                r \<in> set (Map_values (bestOfWeeks this))
                \<and> getProp r ''weekStart'' = JDate (getStartOfWeek host now))
         \<and> (getCurrentBestOfWeek host this now = Inr None \<longleftrightarrow>
               (\<forall>r \<in> set (Map_values (bestOfWeeks this)).
                  getProp r ''weekStart'' \<noteq> JDate (getStartOfWeek host now)))
         \<and> (keeps_day host (sundayMidnight host now + TimeWithinDay (LocalTime host now))
              \<and> shown host (sundayMidnight host now) \<longrightarrow>
                LocalTime host (getStartOfWeek host now) = sundayMidnight host now
                \<and> WeekDay (LocalTime host (getStartOfWeek host now)) = 0
                \<and> TimeWithinDay (LocalTime host (getStartOfWeek host now)) = 0
                \<and> LocalTime host (getStartOfWeek host now) \<le> LocalTime host now
                \<and> LocalTime host now
                    < LocalTime host (getStartOfWeek host now) + 7 * msPerDay)"
proof -
  let ?P = "\<lambda>best. getProp best ''weekStart'' = JDate (getStartOfWeek host now)"
  let ?rs = "Map_values (bestOfWeeks this)"
  have eq: "getCurrentBestOfWeek host this now = Inr (find ?P ?rs)"
    using assms by (simp add: getCurrentBestOfWeek_def Let_def find_throwing_dates)
  have some: "r \<in> set ?rs \<and> ?P r" if "find ?P ?rs = Some r" for r
    using that by (auto simp: find_Some_iff)
  have none: "find ?P ?rs = None \<longleftrightarrow> (\<forall>r \<in> set ?rs. \<not> ?P r)"
    by (auto simp: find_None_iff)
  have sunday: "LocalTime host (getStartOfWeek host now) = sundayMidnight host now"
    if "keeps_day host (sundayMidnight host now + TimeWithinDay (LocalTime host now))"
      and "shown host (sundayMidnight host now)"
    using that by (rule getStartOfWeek_sunday)
  show ?thesis
    using eq some none sunday sundayMidnight_facts [of host now] by simp
qed

lemma exampleBests_values:
  "Map_values (bestOfWeeks exampleBests) = [exampleBest1, exampleBest2]
   \<and> Map_get (bestOfWeeks exampleBests) ''b2'' = Some exampleBest2"
  by (simp add: exampleBests_def exampleBest1_def exampleBest2_def example_store_defs
      setBestOfWeek_def Let_def Map_values_def)

lemma exampleBest_weekStart:
  "getProp exampleBest1 ''weekStart'' = JDate 1793505600000
   \<and> getProp exampleBest2 ''weekStart'' = JDate 1793505600000
   \<and> getProp exampleBest1 ''id'' = JStr ''b1''
   \<and> getProp exampleBest2 ''id'' = JStr ''b2''"
  by (simp add: exampleBest1_def exampleBest2_def setBestOfWeek_def Let_def getProp_def
      exampleBest_def)

text \<open>On the example host the current local time is 1794094200000, a Saturday; the
  Sunday's midnight is the local time value 1793491200000, which the clock shows.\<close>

lemma exampleHost_local: "LocalTime exampleHost exampleNow = 1794094200000"
  by (simp add: LocalTime_def exampleHost_def exampleNow_def)

lemma exampleHost_sunday: "sundayMidnight exampleHost exampleNow = 1793491200000"
  by (simp add: sundayMidnight_def exampleHost_local Let_def Day_def WeekDay_def MakeDate_def
      msPerDay_def)

lemma exampleHost_clock:
  "keeps_day exampleHost
     (sundayMidnight exampleHost exampleNow + TimeWithinDay (LocalTime exampleHost exampleNow))
   \<and> shown exampleHost (sundayMidnight exampleHost exampleNow)"
  by (simp add: keeps_day_def shown_def exampleHost_sunday exampleHost_local TimeWithinDay_def
      msPerDay_def)
     (simp add: LocalTime_def UTC_def exampleHost_def Day_def msPerDay_def)

lemma exampleHost_startOfWeek: "getStartOfWeek exampleHost exampleNow = 1793505600000"
  by (simp add: getStartOfWeek_unfold exampleHost_sunday exampleHost_local TimeWithinDay_def
      msPerDay_def)
     (simp add: LocalTime_def UTC_def exampleHost_def Day_def MakeDate_def msPerDay_def)

theorem current_best_of_week_witness:
  "all_dates ''weekStart'' (Map_values (bestOfWeeks exampleBests))
   \<and> keeps_day exampleHost
       (sundayMidnight exampleHost exampleNow + TimeWithinDay (LocalTime exampleHost exampleNow))
   \<and> shown exampleHost (sundayMidnight exampleHost exampleNow)
   \<and> getStartOfWeek exampleHost exampleNow = 1793505600000
   \<and> exampleNow - getStartOfWeek exampleHost exampleNow = 7 * msPerDay + 1800000
   \<and> getCurrentBestOfWeek exampleHost exampleBests exampleNow = Inr (Some exampleBest1)
   \<and> WeekDay (LocalTime exampleHost (getStartOfWeek exampleHost exampleNow)) = 0
   \<and> TimeWithinDay (LocalTime exampleHost (getStartOfWeek exampleHost exampleNow)) = 0
   \<and> LocalTime exampleHost exampleNow
       < LocalTime exampleHost (getStartOfWeek exampleHost exampleNow) + 7 * msPerDay"
proof -
  have d: "all_dates ''weekStart'' (Map_values (bestOfWeeks exampleBests))"
    using exampleBests_values exampleBest_weekStart by (simp add: all_dates_def)
  note t = current_best_of_week [OF d, of exampleHost exampleNow]
  have "getCurrentBestOfWeek exampleHost exampleBests exampleNow
          = Inr (find (\<lambda>best. getProp best ''weekStart''
                    = JDate (getStartOfWeek exampleHost exampleNow))
                   (Map_values (bestOfWeeks exampleBests)))"
    using t by blast
  then have r: "getCurrentBestOfWeek exampleHost exampleBests exampleNow
          = Inr (Some exampleBest1)"
    using exampleBests_values exampleBest_weekStart exampleHost_startOfWeek by simp
  have s: "WeekDay (LocalTime exampleHost (getStartOfWeek exampleHost exampleNow)) = 0
      \<and> TimeWithinDay (LocalTime exampleHost (getStartOfWeek exampleHost exampleNow)) = 0
      \<and> LocalTime exampleHost exampleNow
          < LocalTime exampleHost (getStartOfWeek exampleHost exampleNow) + 7 * msPerDay"
    using t exampleHost_clock by blast
  have "exampleNow - getStartOfWeek exampleHost exampleNow = 7 * msPerDay + 1800000"
    unfolding exampleHost_startOfWeek by (simp add: exampleNow_def msPerDay_def)
  with d r s exampleHost_clock exampleHost_startOfWeek show ?thesis
    by blast
qed

text \<open>The claim as stated fails where two stored records both carry the boundary: the
  second one is stored, its \<^verbatim>\<open>weekStart\<close> equals the boundary, and it is not returned.\<close>

theorem current_best_of_week_counterexample:
  "Map_get (bestOfWeeks exampleBests) ''b2'' = Some exampleBest2
   \<and> getTime (getProp exampleBest2 ''weekStart'') = Inr (getStartOfWeek exampleHost exampleNow)
   \<and> getCurrentBestOfWeek exampleHost exampleBests exampleNow \<noteq> Inr (Some exampleBest2)"
proof -
  have "getCurrentBestOfWeek exampleHost exampleBests exampleNow = Inr (Some exampleBest1)"
    using exampleBests_values exampleBest_weekStart exampleHost_startOfWeek
    by (simp add: getCurrentBestOfWeek_def Let_def)
  moreover have "exampleBest1 \<noteq> exampleBest2"
    using exampleBest_weekStart by auto
  ultimately show ?thesis
    using exampleBests_values exampleBest_weekStart exampleHost_startOfWeek by simp
qed

section \<open>Identifiers that are no key\<close>

text \<open>A call adds no key but the identifier it returns, so the keys of a store reached
  from the constructor are the three identifiers of the fixtures and identifiers that
  creating calls returned.\<close>

lemma Map_keys_filter: "Map_keys (filter (\<lambda>e. fst e \<noteq> k) m) \<subseteq> Map_keys m"
  by (auto simp: Map_keys_def)

lemma Map_get_Some_keys: "Map_get m k = Some v \<Longrightarrow> k \<in> Map_keys m"
  using Map_get_None_iff [of m k] by auto

lemma store_keys_exec: "store_keys (exec this c) \<subseteq> store_keys this \<union> returned_id c"
proof (cases c)
  case (UpdateUser id' p)
  then show ?thesis
    by (auto simp: store_keys_def updateUser_def Let_def Map_keys_set
        split: option.splits dest: Map_get_Some_keys)
next
  case (UpdateAthlete id' p)
  then show ?thesis
    by (auto simp: store_keys_def updateAthlete_def Let_def Map_keys_set
        split: option.splits dest: Map_get_Some_keys)
next
  case (UpdateExercise id' p)
  then show ?thesis
    by (auto simp: store_keys_def updateExercise_def Let_def Map_keys_set
        split: option.splits dest: Map_get_Some_keys)
next
  case (UpdateTrainingSession id' p)
  then show ?thesis
    by (auto simp: store_keys_def updateTrainingSession_def Let_def Map_keys_set
        split: option.splits dest: Map_get_Some_keys)
next
  case (UpdateEvent id' p)
  then show ?thesis
    by (auto simp: store_keys_def updateEvent_def Let_def Map_keys_set
        split: option.splits dest: Map_get_Some_keys)
next
  case (UpdateLiveStream id' p)
  then show ?thesis
    by (auto simp: store_keys_def updateLiveStream_def Let_def Map_keys_set
        split: option.splits dest: Map_get_Some_keys)
next
  case (DeleteAthlete id')
  then show ?thesis
    using Map_keys_filter [of id' "athletes this"]
    by (auto simp: store_keys_def deleteAthlete_def Map_delete_def)
next
  case (DeleteExercise id')
  then show ?thesis
    using Map_keys_filter [of id' "exercises this"]
    by (auto simp: store_keys_def deleteExercise_def Map_delete_def)
next
  case (DeleteEvent id')
  then show ?thesis
    using Map_keys_filter [of id' "events this"]
    by (auto simp: store_keys_def deleteEvent_def Map_delete_def)
next
  case (DeleteGalleryItem id')
  then show ?thesis
    using Map_keys_filter [of id' "galleryItems this"]
    by (auto simp: store_keys_def deleteGalleryItem_def Map_delete_def)
next
  case (DeleteLiveStream id')
  then show ?thesis
    using Map_keys_filter [of id' "liveStreams this"]
    by (auto simp: store_keys_def deleteLiveStream_def Map_delete_def)
qed (auto simp: store_keys_def create_defs Let_def Map_keys_set)

lemma store_keys_run: "store_keys (run this cs) \<subseteq> store_keys this \<union> returned_ids cs"
proof (induction cs arbitrary: this)
  case Nil
  then show ?case by (simp add: returned_ids_def)
next
  case (Cons c cs)
  have "store_keys (run (exec this c) cs) \<subseteq> store_keys (exec this c) \<union> returned_ids cs"
    by (rule Cons.IH)
  moreover have "returned_ids (c # cs) = returned_id c \<union> returned_ids cs"
    by (simp add: returned_ids_def)
  ultimately show ?case
    using store_keys_exec [of this c] by auto
qed

lemma store_keys_new:
  "store_keys (MemStorage_new uuid1 uuid2 uuid3 now1 now2 now3) = {uuid1, uuid2, uuid3}"
  by (auto simp: store_keys_def MemStorage_new_def initializeDefaultData_def emptyStorage_def
      Let_def Map_keys_set Map_keys_def)

lemma absent_not_found:
  assumes "id' \<notin> store_keys this"
  shows "(getUser this id' = None \<and> getAthlete this id' = None \<and> getExercise this id' = None
          \<and> getTrainingSession this id' = None \<and> getEvent this id' = None
          \<and> getGalleryItem this id' = None \<and> getLiveStream this id' = None)
       \<and> (updateUser this id' p = (this, None) \<and> updateAthlete this id' p = (this, None)
          \<and> updateExercise this id' p = (this, None)
          \<and> updateTrainingSession this id' p = (this, None)
          \<and> updateEvent this id' p = (this, None) \<and> updateLiveStream this id' p = (this, None))
       \<and> (deleteAthlete this id' = (this, False) \<and> deleteExercise this id' = (this, False)
          \<and> deleteEvent this id' = (this, False) \<and> deleteGalleryItem this id' = (this, False)
          \<and> deleteLiveStream this id' = (this, False))"
proof -
  have n: "Map_get (users this) id' = None" "Map_get (athletes this) id' = None"
    "Map_get (exercises this) id' = None" "Map_get (trainingSessions this) id' = None"
    "Map_get (events this) id' = None" "Map_get (galleryItems this) id' = None"
    "Map_get (liveStreams this) id' = None"
    using assms by (simp_all add: store_keys_def Map_get_None_iff)
  show ?thesis
    using n by (simp add: get_defs update_defs delete_defs Map_delete_absent)
qed

text \<open>
  Claim C3, amended. In a store reached from the constructor by any history of
  calls, for every identifier that no create of the history returned and that is
  not one of the three identifiers the constructor drew for its fixtures: every point
  lookup answers not-found, every update answers not-found and every delete answers
  \<^verbatim>\<open>false\<close>; the results are values, nothing is thrown; and the updates and deletes
  leave the store exactly as it was.
\<close>

theorem unknown_id_not_found:
  assumes "this = run (MemStorage_new uuid1 uuid2 uuid3 now1 now2 now3) cs"
    and "id' \<notin> returned_ids cs"
    and "id' \<notin> {uuid1, uuid2, uuid3}"
  shows "(getUser this id' = None \<and> getAthlete this id' = None \<and> getExercise this id' = None
          \<and> getTrainingSession this id' = None \<and> getEvent this id' = None
          \<and> getGalleryItem this id' = None \<and> getLiveStream this id' = None)
       \<and> (updateUser this id' p = (this, None) \<and> updateAthlete this id' p = (this, None)
          \<and> updateExercise this id' p = (this, None)
          \<and> updateTrainingSession this id' p = (this, None)
          \<and> updateEvent this id' p = (this, None) \<and> updateLiveStream this id' p = (this, None))
       \<and> (deleteAthlete this id' = (this, False) \<and> deleteExercise this id' = (this, False)
          \<and> deleteEvent this id' = (this, False) \<and> deleteGalleryItem this id' = (this, False)
          \<and> deleteLiveStream this id' = (this, False))"
proof -
  have "store_keys this \<subseteq> {uuid1, uuid2, uuid3} \<union> returned_ids cs"
    using store_keys_run [of "MemStorage_new uuid1 uuid2 uuid3 now1 now2 now3" cs]
    by (simp add: assms(1) store_keys_new)
  then have "id' \<notin> store_keys this"
    using assms(2,3) by blast
  then show ?thesis
    by (rule absent_not_found)
qed

theorem unknown_id_not_found_witness:
  "''nobody'' \<notin> returned_ids [CreateEvent ''e1'' exampleEventInput, DeleteEvent ''e1'']
   \<and> ''nobody'' \<notin> {''admin-id'', ''joao-id'', ''profile-id''}
   \<and> getUser (run exampleStore [CreateEvent ''e1'' exampleEventInput, DeleteEvent ''e1''])
        ''nobody'' = None
   \<and> snd (updateEvent (run exampleStore [CreateEvent ''e1'' exampleEventInput, DeleteEvent ''e1''])
        ''nobody'' examplePatch) = None
   \<and> snd (deleteEvent (run exampleStore [CreateEvent ''e1'' exampleEventInput, DeleteEvent ''e1''])
        ''nobody'') = False"
proof -
  let ?cs = "[CreateEvent ''e1'' exampleEventInput, DeleteEvent ''e1'']"
  have a: "''nobody'' \<notin> returned_ids ?cs"
    by (simp add: returned_ids_def)
  have b: "''nobody'' \<notin> {''admin-id'', ''joao-id'', ''profile-id''}"
    by simp
  have c: "run exampleStore ?cs = run (MemStorage_new ''admin-id'' ''joao-id'' ''profile-id'' 0 0 0) ?cs"
    by (simp only: exampleStore_def)
  show ?thesis
    using unknown_id_not_found [OF c a b, of examplePatch] a b by simp
qed

text \<open>The claim as stated fails for the fixtures: no create returned their
  identifiers, yet in the freshly constructed store the administrator is found and
  updated, and the athlete profile is deleted.\<close>

theorem unknown_id_not_found_counterexample:
  "''admin-id'' \<notin> returned_ids [] \<and> ''profile-id'' \<notin> returned_ids []
   \<and> getUser (run exampleStore []) ''admin-id'' \<noteq> None
   \<and> snd (updateUser (run exampleStore []) ''admin-id'' examplePatch) \<noteq> None
   \<and> snd (deleteAthlete (run exampleStore []) ''profile-id'') = True"
  by (simp add: returned_ids_def example_store_defs getUser_def updateUser_def
      deleteAthlete_def Map_delete_def Map_has_def Let_def)

section \<open>The identifier of a stored record\<close>

lemma ids_match_set:
  "ids_match m \<Longrightarrow> r ''id'' = Some (JStr k) \<Longrightarrow> ids_match (Map_set m k r)"
  using set_Map_set [of m k r] by (auto simp: ids_match_def)

lemma ids_match_delete: "ids_match m \<Longrightarrow> ids_match (fst (Map_delete m k))"
  by (auto simp: ids_match_def Map_delete_def)

lemma ids_match_get: "ids_match m \<Longrightarrow> Map_get m k = Some r \<Longrightarrow> r ''id'' = Some (JStr k)"
  using Map_get_in_set [of m k r] by (auto simp: ids_match_def)

lemma merged_id:
  "r ''id'' = Some (JStr k) \<Longrightarrow> leaves_id k p \<Longrightarrow> (r ++ p) ''id'' = Some (JStr k)"
  by (auto simp: leaves_id_def map_add_def)

lemma ids_match_update:
  "ids_match m \<Longrightarrow> Map_get m k = Some r \<Longrightarrow> leaves_id k p \<Longrightarrow> ids_match (Map_set m k (r ++ p))"
  by (rule ids_match_set) (auto intro: merged_id ids_match_get)

lemma id_inv_exec: "id_inv this \<Longrightarrow> keeps_id c \<Longrightarrow> id_inv (exec this c)"
proof (cases c)
  case (UpdateUser id' p)
  then show "id_inv this \<Longrightarrow> keeps_id c \<Longrightarrow> ?thesis"
    by (auto simp: id_inv_def updateUser_def Let_def ids_match_update split: option.splits)
next
  case (UpdateAthlete id' p)
  then show "id_inv this \<Longrightarrow> keeps_id c \<Longrightarrow> ?thesis"
    by (auto simp: id_inv_def updateAthlete_def Let_def ids_match_update split: option.splits)
next
  case (UpdateExercise id' p)
  then show "id_inv this \<Longrightarrow> keeps_id c \<Longrightarrow> ?thesis"
    by (auto simp: id_inv_def updateExercise_def Let_def ids_match_update split: option.splits)
next
  case (UpdateTrainingSession id' p)
  then show "id_inv this \<Longrightarrow> keeps_id c \<Longrightarrow> ?thesis"
    by (auto simp: id_inv_def updateTrainingSession_def Let_def ids_match_update
        split: option.splits)
next
  case (UpdateEvent id' p)
  then show "id_inv this \<Longrightarrow> keeps_id c \<Longrightarrow> ?thesis"
    by (auto simp: id_inv_def updateEvent_def Let_def ids_match_update split: option.splits)
next
  case (UpdateLiveStream id' p)
  then show "id_inv this \<Longrightarrow> keeps_id c \<Longrightarrow> ?thesis"
    by (auto simp: id_inv_def updateLiveStream_def Let_def ids_match_update split: option.splits)
next
  case (DeleteAthlete id')
  then show "id_inv this \<Longrightarrow> ?thesis"
    using ids_match_delete [of "athletes this" id']
    by (simp add: id_inv_def deleteAthlete_def split_def Let_def)
next
  case (DeleteExercise id')
  then show "id_inv this \<Longrightarrow> ?thesis"
    using ids_match_delete [of "exercises this" id']
    by (simp add: id_inv_def deleteExercise_def split_def Let_def)
next
  case (DeleteEvent id')
  then show "id_inv this \<Longrightarrow> ?thesis"
    using ids_match_delete [of "events this" id']
    by (simp add: id_inv_def deleteEvent_def split_def Let_def)
next
  case (DeleteGalleryItem id')
  then show "id_inv this \<Longrightarrow> ?thesis"
    using ids_match_delete [of "galleryItems this" id']
    by (simp add: id_inv_def deleteGalleryItem_def split_def Let_def)
next
  case (DeleteLiveStream id')
  then show "id_inv this \<Longrightarrow> ?thesis"
    using ids_match_delete [of "liveStreams this" id']
    by (simp add: id_inv_def deleteLiveStream_def split_def Let_def)
qed (simp_all add: id_inv_def create_defs Let_def ids_match_set)

lemma id_inv_run: "id_inv this \<Longrightarrow> list_all keeps_id cs \<Longrightarrow> id_inv (run this cs)"
  by (induction cs arbitrary: this) (simp_all add: id_inv_exec)

lemma id_inv_new: "id_inv (MemStorage_new uuid1 uuid2 uuid3 now1 now2 now3)"
  by (simp add: id_inv_def MemStorage_new_def initializeDefaultData_def emptyStorage_def
      Let_def ids_match_def)

text \<open>
  Claim C8, amended. For every entity kind, in every store reached from the
  constructor by a history of calls whose updates carry partial records that have no
  \<^verbatim>\<open>id\<close> property or repeat the identifier they are addressed to, every stored record's
  \<^verbatim>\<open>id\<close> equals the key it is stored under. The \<^verbatim>\<open>id\<close> is assigned at creation, and along
  such a history no create, update or delete changes the \<^verbatim>\<open>id\<close> of an existing record:
  it is its key before and after.
\<close>

theorem stored_id_is_key:
  "list_all keeps_id cs \<Longrightarrow> id_inv (run (MemStorage_new uuid1 uuid2 uuid3 now1 now2 now3) cs)"
  by (rule id_inv_run [OF id_inv_new])

theorem stored_id_is_key_witness:
  "list_all keeps_id [CreateEvent ''e1'' exampleEventInput, UpdateUser ''admin-id'' examplePatch,
      DeleteAthlete ''profile-id'']
   \<and> id_inv (run (MemStorage_new ''admin-id'' ''joao-id'' ''profile-id'' 0 0 0)
        [CreateEvent ''e1'' exampleEventInput, UpdateUser ''admin-id'' examplePatch,
         DeleteAthlete ''profile-id''])"
proof -
  have k: "list_all keeps_id [CreateEvent ''e1'' exampleEventInput,
      UpdateUser ''admin-id'' examplePatch, DeleteAthlete ''profile-id'']"
    by (simp add: leaves_id_def examplePatch_def)
  show ?thesis
    using stored_id_is_key [OF k, of "''admin-id''" "''joao-id''" "''profile-id''" 0 0 0] k
    by blast
qed

text \<open>The claim as stated fails for an update whose partial record names another
  identifier: the spread copies it over the record's \<^verbatim>\<open>id\<close>, while the key stays.\<close>

lemma exampleStore_admin_renamed:
  "\<exists>r. Map_get (users (exec exampleStore (UpdateUser ''admin-id'' exampleIdPatch))) ''admin-id''
          = Some r \<and> r ''id'' = Some (JStr ''other'')"
  by (simp add: example_store_defs updateUser_def Let_def exampleIdPatch_def)

theorem stored_id_is_key_counterexample:
  "id_inv exampleStore
   \<and> (\<exists>r. getUser (fst (updateUser exampleStore ''admin-id'' exampleIdPatch)) ''admin-id''
            = Some r \<and> r ''id'' = Some (JStr ''other''))
   \<and> \<not> id_inv (exec exampleStore (UpdateUser ''admin-id'' exampleIdPatch))"
proof -
  have "id_inv exampleStore"
    by (simp add: exampleStore_def id_inv_new)
  moreover have "\<not> ids_match (users (exec exampleStore (UpdateUser ''admin-id'' exampleIdPatch)))"
    using exampleStore_admin_renamed ids_match_get by fastforce
  ultimately show ?thesis
    using exampleStore_admin_renamed by (simp add: id_inv_def getUser_def)
qed

end
